theory Spec2Isabelle
  imports Complex_Main
begin

section \<open>JavaScript numbers and values\<close>

text \<open>
  The component computes with JavaScript numbers: it multiplies by 2 and by 230, divides
  by 25, rounds up, parses decimal text and prints numbers as text. A finite number is
  modelled as an exact decimal \<open>Dec m e\<close>, standing for \<open>m * 10 ^ e\<close>, kept in normal
  form (the mantissa has no trailing zero, and zero is \<open>Dec 0 0\<close>). Every operation of
  the component maps decimals to decimals, so the arithmetic of the model is exact: the
  binary rounding of IEEE doubles, their overflow to infinity and the sign of zero are
  not modelled. \<open>NaN\<close> and the two infinities are values of the model, since parsing
  produces them.
\<close>

datatype jsnum = NaN | PosInf | NegInf | Dec int int

function norm_dec :: "int \<Rightarrow> int \<Rightarrow> jsnum" where
  "norm_dec m e =
     (if m = 0 then Dec 0 0
      else if m mod 10 = 0 then norm_dec (m div 10) (e + 1)
      else Dec m e)"
  by pat_completeness auto
termination
  by (relation "measure (\<lambda>(m, e). nat \<bar>m\<bar>)") auto

declare norm_dec.simps [simp del]

text \<open>A component state variable holds \<open>null\<close>, \<open>undefined\<close> or a number.\<close>

datatype jsval = Undefined | Null | Num jsnum

fun ToNumber :: "jsval \<Rightarrow> jsnum" where
  "ToNumber Undefined = NaN"
| "ToNumber Null = Dec 0 0"
| "ToNumber (Num n) = n"

fun num_sign :: "jsnum \<Rightarrow> int" where
  "num_sign NaN = 0"
| "num_sign PosInf = 1"
| "num_sign NegInf = - 1"
| "num_sign (Dec m e) = sgn m"

definition inf_of_sign :: "int \<Rightarrow> jsnum" where
  "inf_of_sign s = (if s = 0 then NaN else if 0 < s then PosInf else NegInf)"

fun js_mul :: "jsnum \<Rightarrow> jsnum \<Rightarrow> jsnum" where
  "js_mul NaN y = NaN"
| "js_mul x NaN = NaN"
| "js_mul (Dec m e) (Dec n f) = norm_dec (m * n) (e + f)"
| "js_mul x y = inf_of_sign (num_sign x * num_sign y)"

text \<open>
  The scale of a divisor \<open>d\<close> is the least \<open>k\<close> with \<open>d\<close> dividing \<open>10 ^ k\<close>; a quotient
  by such a divisor is again a decimal. The component divides by the constant 25 only,
  whose scale is 2. For a divisor with another prime factor the model cuts the quotient
  after 17 decimal places; the component never reaches that case.
\<close>

definition div_scale :: "int \<Rightarrow> nat" where
  "div_scale d =
     (case find (\<lambda>k. 10 ^ k mod d = 0) [0 ..< Suc (nat \<bar>d\<bar>)] of
        Some k \<Rightarrow> k
      | None \<Rightarrow> 17)"

fun js_div :: "jsnum \<Rightarrow> jsnum \<Rightarrow> jsnum" where
  "js_div NaN y = NaN"
| "js_div x NaN = NaN"
| "js_div (Dec m e) (Dec d f) =
     (if d = 0 then inf_of_sign (sgn m)
      else norm_dec ((m * 10 ^ div_scale d) div d) (e - f - int (div_scale d)))"
| "js_div (Dec m e) y = Dec 0 0"
| "js_div x (Dec d f) = inf_of_sign (num_sign x * (if d < 0 then - 1 else 1))"
| "js_div x y = NaN"

text \<open>\<open>Math.ceil\<close>: the least integer not below the argument.\<close>

fun Math_ceil :: "jsnum \<Rightarrow> jsnum" where
  "Math_ceil (Dec m e) =
     (if 0 \<le> e then norm_dec (m * 10 ^ nat e) 0
      else norm_dec (- ((- m) div 10 ^ nat (- e))) 0)"
| "Math_ceil x = x"

section \<open>Strings\<close>

text \<open>
  A string is a list of 8-bit characters, read as the UTF-8 bytes of the JavaScript
  string. The operations below are exact on ASCII text; a character outside ASCII is
  never white space, a digit or a letter of the model.
\<close>

definition is_digit :: "char \<Rightarrow> bool" where
  "is_digit c = (48 \<le> (of_char c :: nat) \<and> (of_char c :: nat) \<le> 57)"

definition is_white :: "char \<Rightarrow> bool" where
  "is_white c = ((of_char c :: nat) \<in> {9, 10, 11, 12, 13, 32})"

definition digit_char :: "nat \<Rightarrow> char" where
  "digit_char d = char_of (48 + d)"

definition digit_val :: "char \<Rightarrow> nat" where
  "digit_val c = of_char c - 48"



definition nat_of_digits :: "string \<Rightarrow> nat" where
  "nat_of_digits ds = foldl (\<lambda>acc c. 10 * acc + digit_val c) 0 ds"

subsection \<open>Number to string\<close>




subsection \<open>String to number\<close>

text \<open>
  \<open>Number.parseInt(string, 10)\<close>: skip leading white space, read an optional sign, then
  the longest run of decimal digits; \<open>NaN\<close> when that run is empty.
\<close>

definition strip_sign :: "string \<Rightarrow> int \<times> string" where
  "strip_sign s =
     (case s of
        c # t \<Rightarrow> if c = CHR ''-'' then (- 1, t) else if c = CHR ''+'' then (1, t) else (1, s)
      | [] \<Rightarrow> (1, s))"

definition parseInt :: "string \<Rightarrow> jsnum" where
  "parseInt inputString =
     (let (sign, S) = strip_sign (dropWhile is_white inputString);
          Z = takeWhile is_digit S
      in if Z = [] then NaN else norm_dec (sign * int (nat_of_digits Z)) 0)"

text \<open>
  \<open>Number.parseFloat(string)\<close>: skip leading white space and read the longest prefix
  that is a decimal literal: an optional sign, then \<open>Infinity\<close>, or digits with an
  optional fraction, or a dot followed by digits, each with an optional exponent part.
  An exponent indicator that no digit follows is not part of the literal.
\<close>

definition exponent_part :: "string \<Rightarrow> int" where
  "exponent_part r =
     (case r of
        c # t \<Rightarrow>
          if c = CHR ''e'' \<or> c = CHR ''E'' then
            (let (sign, u) = strip_sign t; ds = takeWhile is_digit u
             in if ds = [] then 0 else sign * int (nat_of_digits ds))
          else 0
      | [] \<Rightarrow> 0)"

definition parseFloat :: "string \<Rightarrow> jsnum" where
  "parseFloat inputString =
     (let (sign, rest) = strip_sign (dropWhile is_white inputString) in
      if take 8 rest = ''Infinity'' then (if sign < 0 then NegInf else PosInf)
      else
        (let ip = takeWhile is_digit rest;
             r1 = dropWhile is_digit rest;
             (fp, r2) = (case r1 of
                           c # t \<Rightarrow> if c = CHR ''.'' then (takeWhile is_digit t, dropWhile is_digit t)
                                    else ([], r1)
                         | [] \<Rightarrow> ([], r1))
         in if ip = [] \<and> fp = [] then NaN
            else norm_dec (sign * int (nat_of_digits (ip @ fp)))
                          (exponent_part r2 - int (length fp))))"

subsection \<open>Canonical spellings\<close>




subsection \<open>Case mapping and replacement\<close>

text \<open>
  \<open>String.prototype.toUpperCase\<close> and \<open>toLowerCase\<close> on ASCII letters; every other
  character is left as it is.
\<close>

definition is_lower :: "char \<Rightarrow> bool" where
  "is_lower c = (97 \<le> (of_char c :: nat) \<and> (of_char c :: nat) \<le> 122)"

definition is_upper :: "char \<Rightarrow> bool" where
  "is_upper c = (65 \<le> (of_char c :: nat) \<and> (of_char c :: nat) \<le> 90)"

definition upper_char :: "char \<Rightarrow> char" where
  "upper_char c = (if is_lower c then char_of ((of_char c :: nat) - 32) else c)"

definition lower_char :: "char \<Rightarrow> char" where
  "lower_char c = (if is_upper c then char_of ((of_char c :: nat) + 32) else c)"

definition toUpperCase :: "string \<Rightarrow> string" where
  "toUpperCase s = map upper_char s"

definition toLowerCase :: "string \<Rightarrow> string" where
  "toLowerCase s = map lower_char s"

text \<open>
  \<open>s.replace(' ', '')\<close>: with a string pattern, \<open>replace\<close> rewrites the first occurrence
  only. The pattern here is the single space character and the replacement is empty, so
  the first space of \<open>s\<close> is removed.
\<close>

fun replace_first_space :: "string \<Rightarrow> string" where
  "replace_first_space [] = []"
| "replace_first_space (c # cs) = (if c = CHR '' '' then cs else c # replace_first_space cs)"

section \<open>URLs and query parameters\<close>

text \<open>
  \<open>window.location\<close> as its components; \<open>href\<close> is their concatenation. \<open>search\<close> is
  empty or starts with a question mark, \<open>hash\<close> is empty or starts with a number sign.
\<close>

record location =
  origin :: string
  pathname :: string
  search :: string
  hash :: string


subsection \<open>Parsing a query string\<close>

definition hex_val :: "char \<Rightarrow> nat option" where
  "hex_val c =
     (let n = (of_char c :: nat) in
      if 48 \<le> n \<and> n \<le> 57 then Some (n - 48)
      else if 65 \<le> n \<and> n \<le> 70 then Some (n - 55)
      else if 97 \<le> n \<and> n \<le> 102 then Some (n - 87)
      else None)"

fun percent_decode :: "string \<Rightarrow> string" where
  "percent_decode (c # h # l # rest) =
     (if c = CHR ''%'' then
        (case (hex_val h, hex_val l) of
           (Some a, Some b) \<Rightarrow> char_of (16 * a + b) # percent_decode rest
         | _ \<Rightarrow> c # percent_decode (h # l # rest))
      else c # percent_decode (h # l # rest))"
| "percent_decode cs = cs"

fun split_on :: "char \<Rightarrow> string \<Rightarrow> string list" where
  "split_on d [] = [[]]"
| "split_on d (c # cs) =
     (case split_on d cs of
        w # ws \<Rightarrow> if c = d then [] # w # ws else (c # w) # ws
      | [] \<Rightarrow> [[c]])"

definition plus_to_space :: "string \<Rightarrow> string" where
  "plus_to_space s = map (\<lambda>c. if c = CHR ''+'' then CHR '' '' else c) s"

definition parse_pair :: "string \<Rightarrow> string \<times> string" where
  "parse_pair piece =
     (let name = takeWhile (\<lambda>c. c \<noteq> CHR ''='') piece;
          val = drop 1 (dropWhile (\<lambda>c. c \<noteq> CHR ''='') piece)
      in (percent_decode (plus_to_space name), percent_decode (plus_to_space val)))"

text \<open>
  \<open>new URLSearchParams(init)\<close> for a string: a leading question mark is dropped, the
  rest is split at ampersands, empty pieces are skipped, each piece is split at its
  first equals sign, plus signs become spaces and percent escapes are decoded.
\<close>

definition URLSearchParams :: "string \<Rightarrow> (string \<times> string) list" where
  "URLSearchParams init =
     (let q = (case init of c # t \<Rightarrow> if c = CHR ''?'' then t else init | [] \<Rightarrow> init)
      in map parse_pair (filter (\<lambda>piece. piece \<noteq> []) (split_on (CHR ''&'') q)))"

text \<open>\<open>get\<close> returns the value of the first pair with the name, or \<open>null\<close>.\<close>

definition get_param :: "(string \<times> string) list \<Rightarrow> string \<Rightarrow> string option" where
  "get_param params name = map_of params name"


subsection \<open>Serialising query parameters\<close>







section \<open>The component\<close>

subsection \<open>State\<close>

datatype submit_status = Idle | Success | Error

text \<open>
  One field for each \<open>useState\<close> of \<open>PersonalCalculator\<close>. \<open>carbonEmissions\<close> starts as
  \<open>null\<close> and later holds what the response carried; \<open>error\<close> is \<open>null\<close> or a message.
\<close>

record calc_state =
  homePostcode :: string
  workPostcode :: string
  travelMethod :: string
  carbonEmissions :: jsval
  treesNeeded :: jsnum
  isLoading :: bool
  error :: "string option"
  shareTooltip :: string
  isSharedView :: bool
  showTooltip :: bool
  email :: string
  isSubmitting :: bool
  submitStatus :: submit_status
  errorMessage :: string

definition initial_state :: calc_state where
  "initial_state =
     \<lparr> homePostcode = [], workPostcode = [], travelMethod = [],
       carbonEmissions = Null, treesNeeded = Dec 0 0, isLoading = False, error = None,
       shareTooltip = ''Copy link'', isSharedView = False, showTooltip = False,
       email = [], isSubmitting = False, submitStatus = Idle, errorMessage = [] \<rparr>"

text \<open>
  Truthiness of what \<open>URLSearchParams.get\<close> returns: \<open>null\<close> and the empty string are
  falsy, every other string is truthy.
\<close>

definition truthy :: "string option \<Rightarrow> bool" where
  "truthy v = (case v of None \<Rightarrow> False | Some t \<Rightarrow> t \<noteq> [])"

text \<open>A value passed where a string is expected is converted: \<open>null\<close> reads as its name.\<close>

definition js_string :: "string option \<Rightarrow> string" where
  "js_string v = (case v of None \<Rightarrow> ''null'' | Some t \<Rightarrow> t)"

subsection \<open>Shared view: the effect run once on load\<close>

definition shared_view_effect :: "location \<Rightarrow> calc_state \<Rightarrow> calc_state" where
  "shared_view_effect l s =
     (let urlParams = URLSearchParams (search l);
          trees = get_param urlParams ''trees'';
          emissions = get_param urlParams ''emissions'';
          method = get_param urlParams ''method''
      in if truthy trees \<and> truthy emissions then
           (let s1 = s \<lparr> treesNeeded := parseInt (js_string trees),
                          carbonEmissions := Num (parseFloat (js_string emissions)),
                          isSharedView := True \<rparr>
            in if truthy method then s1 \<lparr> travelMethod := js_string method \<rparr> else s1)
         else s)"

definition mount :: "location \<Rightarrow> calc_state" where
  "mount l = shared_view_effect l initial_state"

subsection \<open>Trees needed\<close>

definition KG_CO2_PER_TREE_PER_YEAR :: jsnum where
  "KG_CO2_PER_TREE_PER_YEAR = Dec 25 0"

definition calculateTreesNeeded :: "jsval \<Rightarrow> jsnum" where
  "calculateTreesNeeded emissions =
     (let annualEmissions = js_mul (js_mul (ToNumber emissions) (Dec 2 0)) (Dec 230 0)
      in Math_ceil (js_div annualEmissions KG_CO2_PER_TREE_PER_YEAR))"

subsection \<open>Submitting the form\<close>

text \<open>
  The body of the request, and what the remote call can come back with: \<open>fetch\<close> rejects,
  or answers with a response whose \<open>ok\<close> flag is set or not; \<open>response.json()\<close> rejects,
  or gives \<open>null\<close>, or gives a value whose property \<open>emissions_kgCO2e\<close> reads as the given
  value (\<open>Undefined\<close> when the property is missing). A thrown value is an \<open>Error\<close> with
  its message, or something else.
\<close>

record journey_request =
  body_origin :: string
  body_destination :: string
  body_mode :: string

datatype thrown = ErrorObject string | NotAnError

datatype json_outcome = JsonRejected thrown | JsonNull | JsonData jsval

datatype fetch_outcome = FetchRejected thrown | Response bool json_outcome

definition null_property_message :: string where
  "null_property_message =
     ''Cannot read properties of null (reading '' @ [char_of (39::nat)] @ ''emissions_kgCO2e''
       @ [char_of (39::nat)] @ '')''"

text \<open>
  \<open>handleVisualize\<close> up to its \<open>await\<close>: the validation, then the loading flag, and the
  request that is sent. The result carries the request when one is sent.
\<close>

definition handleVisualize_submit :: "calc_state \<Rightarrow> calc_state \<times> journey_request option" where
  "handleVisualize_submit s =
     (if homePostcode s = [] \<or> workPostcode s = [] \<or> travelMethod s = [] then
        (s \<lparr> error := Some ''Please fill in all fields'' \<rparr>, None)
      else
        (s \<lparr> isLoading := True, error := None \<rparr>,
         Some \<lparr> body_origin = toUpperCase (replace_first_space (homePostcode s)),
                body_destination = toUpperCase (replace_first_space (workPostcode s)),
                body_mode = toLowerCase (travelMethod s) \<rparr>))"

text \<open>The \<open>try\<close> block after the call is settled: the emissions it reads, or what it throws.\<close>

definition try_block :: "fetch_outcome \<Rightarrow> thrown + jsval" where
  "try_block out =
     (case out of
        FetchRejected t \<Rightarrow> Inl t
      | Response ok body \<Rightarrow>
          if \<not> ok then Inl (ErrorObject ''Failed to calculate carbon emissions'')
          else (case body of
                  JsonRejected t \<Rightarrow> Inl t
                | JsonNull \<Rightarrow> Inl (ErrorObject null_property_message)
                | JsonData emissions \<Rightarrow> Inr emissions))"

definition handleVisualize_settle :: "fetch_outcome \<Rightarrow> calc_state \<Rightarrow> calc_state" where
  "handleVisualize_settle out s =
     (let s1 = (case try_block out of
                  Inr emissions \<Rightarrow>
                    s \<lparr> carbonEmissions := emissions,
                        treesNeeded := calculateTreesNeeded emissions \<rparr>
                | Inl err \<Rightarrow>
                    s \<lparr> error := Some (case err of ErrorObject message \<Rightarrow> message
                                        | NotAnError \<Rightarrow> ''An error occurred'') \<rparr>)
      in s1 \<lparr> isLoading := False \<rparr>)"

text \<open>The whole handler, for a call that settles with \<open>out\<close> when one is made.\<close>

definition handleVisualize :: "fetch_outcome \<Rightarrow> calc_state \<Rightarrow> calc_state \<times> journey_request option" where
  "handleVisualize out s =
     (case handleVisualize_submit s of
        (s1, None) \<Rightarrow> (s1, None)
      | (s1, Some req) \<Rightarrow> (handleVisualize_settle out s1, Some req))"

subsection \<open>The shareable link\<close>

datatype js_error = ReferenceError string | TypeError string



subsection \<open>Copying the link, and leaving the shared view\<close>

text \<open>
  \<open>handleShare\<close> after the clipboard has taken the link, and the timer it starts. When
  the clipboard refuses, the state is not touched.
\<close>

definition handleShare_copied :: "calc_state \<Rightarrow> calc_state" where
  "handleShare_copied s = s \<lparr> shareTooltip := ''Copied!'', showTooltip := True \<rparr>"

definition handleShare_timeout :: "calc_state \<Rightarrow> calc_state" where
  "handleShare_timeout s = s \<lparr> shareTooltip := ''Copy link'', showTooltip := False \<rparr>"

text \<open>
  \<open>window.history.pushState({}, "", window.location.pathname)\<close>: the address becomes the
  path alone, without query or fragment.
\<close>

definition pushState_pathname :: "location \<Rightarrow> location" where
  "pushState_pathname l = l \<lparr> search := [], hash := [] \<rparr>"

text \<open>The click handler of the button shown in the shared view.\<close>

definition reset_onClick :: "location \<times> calc_state \<Rightarrow> location \<times> calc_state" where
  "reset_onClick w = (pushState_pathname (fst w), (snd w) \<lparr> isSharedView := False \<rparr>)"

subsection \<open>Events\<close>

text \<open>
  The page is the address together with the component state. Each event is one handler
  of the component; a remote call is settled by a later event of its own, with its
  outcome.
\<close>

datatype event =
    ChangeHomePostcode string
  | ChangeWorkPostcode string
  | ChangeTravelMethod string
  | ClickVisualize
  | CallSettled fetch_outcome
  | LinkCopied
  | TooltipTimeout
  | ClickReset

fun step :: "location \<times> calc_state \<Rightarrow> event \<Rightarrow> location \<times> calc_state" where
  "step (l, s) (ChangeHomePostcode v) = (l, s \<lparr> homePostcode := v \<rparr>)"
| "step (l, s) (ChangeWorkPostcode v) = (l, s \<lparr> workPostcode := v \<rparr>)"
| "step (l, s) (ChangeTravelMethod v) = (l, s \<lparr> travelMethod := v \<rparr>)"
| "step (l, s) ClickVisualize = (l, fst (handleVisualize_submit s))"
| "step (l, s) (CallSettled out) = (l, handleVisualize_settle out s)"
| "step (l, s) LinkCopied = (l, handleShare_copied s)"
| "step (l, s) TooltipTimeout = (l, handleShare_timeout s)"
| "step (l, s) ClickReset = reset_onClick (l, s)"

definition run :: "location \<Rightarrow> event list \<Rightarrow> location \<times> calc_state" where
  "run l evs = foldl step (l, mount l) evs"

subsection \<open>Rendering\<close>

text \<open>
  The names bound where the returned markup is evaluated: the imports, the module
  constant, the component with its two props, each state variable with its setter, and
  the four functions the component declares. The names of the host environment that the
  markup uses (\<open>Array\<close>, \<open>Math\<close>) are bound as well.
\<close>

definition scope :: "string list" where
  "scope =
     [''useState'', ''useEffect'', ''Tree'', ''Share2'', ''KG_CO2_PER_TREE_PER_YEAR'',
      ''PersonalCalculator'', ''title'', ''description'',
      ''homePostcode'', ''setHomePostcode'', ''workPostcode'', ''setWorkPostcode'',
      ''travelMethod'', ''setTravelMethod'', ''carbonEmissions'', ''setCarbonEmissions'',
      ''treesNeeded'', ''setTreesNeeded'', ''isLoading'', ''setIsLoading'',
      ''error'', ''setError'', ''shareTooltip'', ''setShareTooltip'',
      ''isSharedView'', ''setIsSharedView'', ''showTooltip'', ''setShowTooltip'',
      ''email'', ''setEmail'', ''isSubmitting'', ''setIsSubmitting'',
      ''submitStatus'', ''setSubmitStatus'', ''errorMessage'', ''setErrorMessage'',
      ''calculateTreesNeeded'', ''handleVisualize'', ''generateShareableLink'', ''handleShare'',
      ''Array'', ''Math'']"

text \<open>Evaluating an identifier: a name that is not bound throws.\<close>

definition resolve :: "string \<Rightarrow> js_error + unit" where
  "resolve name = (if name \<in> set scope then Inr () else Inl (ReferenceError name))"

definition and_then :: "'e + 'a \<Rightarrow> ('a \<Rightarrow> 'e + 'b) \<Rightarrow> 'e + 'b" where
  "and_then r f = (case r of Inl e \<Rightarrow> Inl e | Inr x \<Rightarrow> f x)"

text \<open>\<open>carbonEmissions.toFixed(2)\<close>: reading the method of \<open>undefined\<close> or \<open>null\<close> throws.\<close>

definition toFixed_receiver :: "jsval \<Rightarrow> js_error + jsnum" where
  "toFixed_receiver v =
     (case v of Num n \<Rightarrow> Inr n | _ \<Rightarrow> Inl (TypeError ''toFixed''))"

text \<open>
  \<open>Array.from({ length: Math.min(treesNeeded, 100) })\<close>: the number of tree icons.
\<close>

fun icon_count :: "jsnum \<Rightarrow> nat" where
  "icon_count NaN = 0"
| "icon_count PosInf = 100"
| "icon_count NegInf = 0"
| "icon_count (Dec m e) =
     (if m \<le> 0 then 0
      else if 0 \<le> e then min (nat (m * 10 ^ nat e)) 100
      else min (nat (m div 10 ^ nat (- e))) 100)"

text \<open>
  What a render shows. The markup is evaluated from top to bottom: the heading, the form
  (outside the shared view), the result panel and the request form below it (when
  \<open>carbonEmissions\<close> is not \<open>null\<close>), the button of the shared view. The view keeps the
  values shown, not their formatting.
\<close>

record view =
  heading :: string
  form_shown :: bool
  error_shown :: "string option"
  result_shown :: "(jsnum \<times> jsnum \<times> nat) option"
  share_shown :: bool
  reset_shown :: bool
  request_form_shown :: bool

definition render_form :: "calc_state \<Rightarrow> js_error + (bool \<times> string option)" where
  "render_form s =
     (if \<not> isSharedView s then
        and_then (resolve ''handleVisualize'')
          (\<lambda>_. Inr (True, if truthy (error s) then error s else None))
      else Inr (False, None))"

definition render_result :: "calc_state \<Rightarrow> js_error + ((jsnum \<times> jsnum \<times> nat) option \<times> bool)" where
  "render_result s =
     (if carbonEmissions s \<noteq> Null then
        and_then (toFixed_receiver (carbonEmissions s))
          (\<lambda>shown.
             if \<not> isSharedView s then
               and_then (resolve ''handleShare'')
                 (\<lambda>_. Inr (Some (treesNeeded s, shown, icon_count (treesNeeded s)), True))
             else Inr (Some (treesNeeded s, shown, icon_count (treesNeeded s)), False))
      else Inr (None, False))"

definition render_request_form :: "calc_state \<Rightarrow> js_error + bool" where
  "render_request_form s =
     (if carbonEmissions s \<noteq> Null then
        and_then (resolve ''handleRequestInfo'')
          (\<lambda>_. and_then (resolve ''handleEmailChange'') (\<lambda>_. Inr True))
      else Inr False)"

definition render :: "string \<Rightarrow> calc_state \<Rightarrow> js_error + view" where
  "render title s =
     and_then (render_form s) (\<lambda>(form, err).
     and_then (render_result s) (\<lambda>(result, share).
     and_then (render_request_form s) (\<lambda>request_form.
       Inr \<lparr> heading = (if isSharedView s then ''Shared Commute Visualization'' else title),
             form_shown = form, error_shown = err, result_shown = result,
             share_shown = share, reset_shown = isSharedView s,
             request_form_shown = request_form \<rparr>)))"

section \<open>Arithmetic of the model\<close>













section \<open>Trees needed\<close>


section \<open>Evaluating the model on concrete inputs\<close>

text \<open>
  The definitions that a concrete query string, number or character is evaluated with.
\<close>

lemmas query_eval =
  URLSearchParams_def parse_pair_def plus_to_space_def get_param_def truthy_def js_string_def

lemmas number_eval =
  parseInt_def parseFloat_def strip_sign_def exponent_part_def is_white_def is_digit_def
  nat_of_digits_def digit_val_def norm_dec.simps




section \<open>Validation of the form\<close>

text \<open>
  C5. When the home postcode, the work postcode or the travel method is empty, the
  handler stops at its validation: it sets the message \<open>Please fill in all fields\<close>,
  sends no request, and leaves every other state variable, the loading flag among them,
  as it was.
\<close>

theorem empty_input_sends_nothing:
  assumes "homePostcode s = [] \<or> workPostcode s = [] \<or> travelMethod s = []"
  shows "handleVisualize_submit s = (s \<lparr> error := Some ''Please fill in all fields'' \<rparr>, None)
         \<and> handleVisualize out s = (s \<lparr> error := Some ''Please fill in all fields'' \<rparr>, None)
         \<and> isLoading (fst (handleVisualize out s)) = isLoading s"
  using assms by (auto simp: handleVisualize_def handleVisualize_submit_def)

theorem empty_input_sends_nothing_witness:
  "handleVisualize (Response True (JsonData (Num (Dec 5 0))))
     (initial_state \<lparr> homePostcode := ''SW1A 1AA'', travelMethod := ''Bike'' \<rparr>)
   = (initial_state \<lparr> homePostcode := ''SW1A 1AA'', travelMethod := ''Bike'',
                       error := Some ''Please fill in all fields'' \<rparr>, None)"
  using empty_input_sends_nothing
    [of "initial_state \<lparr> homePostcode := ''SW1A 1AA'', travelMethod := ''Bike'' \<rparr>"
        "Response True (JsonData (Num (Dec 5 0)))"]
  by (simp add: initial_state_def)

section \<open>A call that fails\<close>





section \<open>Entering the shared view\<close>

text \<open>
  C4 as stated does not hold: the effect tests that the two parameters are present and
  not empty, and parses them afterwards without looking at the result. With
  \<open>trees=abc\<close> the shared view is entered with \<open>treesNeeded = NaN\<close>; with \<open>trees=-5\<close>
  and \<open>emissions=xyz\<close> it is entered with \<open>-5\<close> trees and \<open>NaN\<close> emissions.
\<close>

theorem unparseable_trees_enters_shared_view_counterexample:
  "isSharedView (mount \<lparr> origin = ''https://example.org'', pathname = ''/'',
                         search = ''?trees=abc&emissions=1'', hash = [] \<rparr>)
   \<and> treesNeeded (mount \<lparr> origin = ''https://example.org'', pathname = ''/'',
                           search = ''?trees=abc&emissions=1'', hash = [] \<rparr>) = NaN
   \<and> isSharedView (mount \<lparr> origin = ''https://example.org'', pathname = ''/'',
                           search = ''?trees=-5&emissions=xyz'', hash = [] \<rparr>)
   \<and> treesNeeded (mount \<lparr> origin = ''https://example.org'', pathname = ''/'',
                           search = ''?trees=-5&emissions=xyz'', hash = [] \<rparr>) = Dec (- 5) 0
   \<and> carbonEmissions (mount \<lparr> origin = ''https://example.org'', pathname = ''/'',
                           search = ''?trees=-5&emissions=xyz'', hash = [] \<rparr>) = Num NaN"
  by (simp add: mount_def shared_view_effect_def query_eval number_eval)

text \<open>
  C4, amended. On load the component enters the shared view exactly when the query has a
  non-empty \<open>trees\<close> parameter and a non-empty \<open>emissions\<close> parameter, whether or not
  they parse as numbers; it then stores \<open>parseInt(trees, 10)\<close> and
  \<open>parseFloat(emissions)\<close>. In every other case the state stays the initial one.
\<close>

theorem shared_view_entered_iff_both_present:
  "isSharedView (mount l) =
     (truthy (get_param (URLSearchParams (search l)) ''trees'')
      \<and> truthy (get_param (URLSearchParams (search l)) ''emissions''))
   \<and> (if truthy (get_param (URLSearchParams (search l)) ''trees'')
         \<and> truthy (get_param (URLSearchParams (search l)) ''emissions'')
       then treesNeeded (mount l) = parseInt (js_string (get_param (URLSearchParams (search l)) ''trees''))
          \<and> carbonEmissions (mount l) =
              Num (parseFloat (js_string (get_param (URLSearchParams (search l)) ''emissions'')))
       else mount l = initial_state)"
  by (simp add: mount_def shared_view_effect_def Let_def initial_state_def)

theorem shared_view_entered_iff_both_present_witness:
  "isSharedView (mount \<lparr> origin = ''https://example.org'', pathname = ''/'',
                         search = ''?trees=46&emissions=2.5'', hash = [] \<rparr>)
   \<and> mount \<lparr> origin = ''https://example.org'', pathname = ''/'',
              search = ''?trees=46'', hash = [] \<rparr> = initial_state"
  using shared_view_entered_iff_both_present
      [of "\<lparr> origin = ''https://example.org'', pathname = ''/'',
              search = ''?trees=46&emissions=2.5'', hash = [] \<rparr>"]
    shared_view_entered_iff_both_present
      [of "\<lparr> origin = ''https://example.org'', pathname = ''/'',
              search = ''?trees=46'', hash = [] \<rparr>"]
  by (simp add: query_eval)

section \<open>Leaving the shared view\<close>





section \<open>The shareable link\<close>






section \<open>Normalising the request\<close>















section \<open>Rendering a result\<close>

text \<open>
  C10 as stated does not hold for every state with \<open>carbonEmissions\<close> not \<open>null\<close>: after
  a form is submitted and answered without an \<open>emissions_kgCO2e\<close> property,
  \<open>carbonEmissions\<close> is \<open>undefined\<close>, and rendering throws a \<open>TypeError\<close> at
  \<open>carbonEmissions.toFixed(2)\<close>, in the result panel, before the request form is reached.
\<close>

theorem missing_field_render_counterexample:
  "carbonEmissions (snd (run \<lparr> origin = ''https://example.org'', pathname = ''/'', search = [], hash = [] \<rparr>
      [ChangeHomePostcode ''SW1A 1AA'', ChangeWorkPostcode ''EC2A 1NT'', ChangeTravelMethod ''Bike'',
       ClickVisualize, CallSettled (Response True (JsonData Undefined))])) \<noteq> Null
   \<and> render ''Visualise Your Commute''
        (snd (run \<lparr> origin = ''https://example.org'', pathname = ''/'', search = [], hash = [] \<rparr>
          [ChangeHomePostcode ''SW1A 1AA'', ChangeWorkPostcode ''EC2A 1NT'', ChangeTravelMethod ''Bike'',
           ClickVisualize, CallSettled (Response True (JsonData Undefined))]))
      = Inl (TypeError ''toFixed'')"
  by (simp add: run_def mount_def shared_view_effect_def query_eval initial_state_def
      handleVisualize_submit_def handleVisualize_settle_def try_block_def render_def
      render_form_def render_result_def and_then_def resolve_def scope_def toFixed_receiver_def)

lemma resolve_handleVisualize: "resolve ''handleVisualize'' = Inr ()"
  by (simp add: resolve_def scope_def)

lemma resolve_handleShare: "resolve ''handleShare'' = Inr ()"
  by (simp add: resolve_def scope_def)

lemma resolve_handleRequestInfo: "resolve ''handleRequestInfo'' = Inl (ReferenceError ''handleRequestInfo'')"
  by (simp add: resolve_def scope_def)

lemma resolve_handleEmailChange: "resolve ''handleEmailChange'' = Inl (ReferenceError ''handleEmailChange'')"
  by (simp add: resolve_def scope_def)

text \<open>
  C10, amended. Whenever \<open>carbonEmissions\<close> holds a number, as in every shared view and
  after every response that carried a number, rendering throws a \<open>ReferenceError\<close> for
  \<open>handleRequestInfo\<close>, which the request form evaluates and nothing declares;
  \<open>handleEmailChange\<close> is not declared either. When \<open>carbonEmissions\<close> is \<open>undefined\<close>
  rendering throws a \<open>TypeError\<close> instead. In both cases no result is displayed; with
  \<open>carbonEmissions\<close> \<open>null\<close> rendering succeeds.
\<close>

theorem render_with_estimate_throws:
  "render title (s \<lparr> carbonEmissions := Num x \<rparr>) = Inl (ReferenceError ''handleRequestInfo'')
   \<and> render title (s \<lparr> carbonEmissions := Undefined \<rparr>) = Inl (TypeError ''toFixed'')
   \<and> resolve ''handleEmailChange'' = Inl (ReferenceError ''handleEmailChange'')
   \<and> (\<exists>v. render title (s \<lparr> carbonEmissions := Null \<rparr>) = Inr v)"
  by (simp add: render_def render_form_def render_result_def render_request_form_def
      and_then_def resolve_handleVisualize resolve_handleShare resolve_handleRequestInfo
      resolve_handleEmailChange toFixed_receiver_def)

theorem render_with_estimate_throws_witness:
  "render ''Visualise Your Commute''
     (mount \<lparr> origin = ''https://example.org'', pathname = ''/'',
              search = ''?trees=92&emissions=5.0&method=Bike'', hash = [] \<rparr>)
   = Inl (ReferenceError ''handleRequestInfo'')"
proof -
  have "mount \<lparr> origin = ''https://example.org'', pathname = ''/'',
              search = ''?trees=92&emissions=5.0&method=Bike'', hash = [] \<rparr>
        = (initial_state \<lparr> treesNeeded := Dec 92 0, isSharedView := True, travelMethod := ''Bike'' \<rparr>)
            \<lparr> carbonEmissions := Num (Dec 5 0) \<rparr>"
    by (simp add: mount_def shared_view_effect_def query_eval number_eval)
  then show ?thesis
    using render_with_estimate_throws
      [where title = "''Visualise Your Commute''"
         and s = "initial_state \<lparr> treesNeeded := Dec 92 0, isSharedView := True, travelMethod := ''Bike'' \<rparr>"
         and x = "Dec 5 0"]
    by simp
qed

section \<open>The stored trees count\<close>












section \<open>Round trip of a shared link\<close>

subsection \<open>Digits\<close>

lemma digit_val_digit_char: "d < 10 \<Longrightarrow> digit_val (digit_char d) = d"
  by (simp add: digit_val_def digit_char_def)

lemma is_digit_digit_char: "d < 10 \<Longrightarrow> is_digit (digit_char d)"
  by (simp add: is_digit_def digit_char_def)












subsection \<open>Printing an integer\<close>









subsection \<open>Parsing a canonical spelling\<close>











subsection \<open>Printing a fraction\<close>









subsection \<open>Decoding and encoding again\<close>












end
